theory Spec2Isabelle
  imports Complex_Main
begin

section \<open>JavaScript values\<close>

text \<open>
  The dashboard client (\<^verbatim>\<open>src/app.js\<close>, class \<^verbatim>\<open>CraneMonitor\<close>) receives one JSON object
  per message and the backend (\<^verbatim>\<open>src/unnamed/part_001\<close>) builds one per tick.  A JavaScript
  value is modelled by the datatype below.  A number in a value is a rational, the exact
  value of a finite double.  The percentage of the client is computed in double arithmetic,
  from the doubles that \<^verbatim>\<open>JSON.parse\<close> makes of the two number literals (subsection on
  doubles below); the numbers of the backend's tick object, of which only the property
  names are used, are computed exactly.  A string is a list of bytes; the three non-ASCII
  characters of the sources are written as their UTF-8 bytes.  An object is its list of
  own properties in insertion order.
\<close>

datatype jsval =
    Undefined
  | Null
  | Bool bool
  | Num rat
  | Str string
  | Date int
  | Arr "jsval list"
  | Obj "(string \<times> jsval) list"

text \<open>\<^verbatim>\<open>ToBoolean\<close>: what \<^verbatim>\<open>if (v)\<close>, \<^verbatim>\<open>!v\<close>, \<^verbatim>\<open>v || w\<close> and \<^verbatim>\<open>v ? a : b\<close> test.\<close>

fun truthy :: "jsval \<Rightarrow> bool" where
  "truthy Undefined = False"
| "truthy Null = False"
| "truthy (Bool b) = b"
| "truthy (Num x) = (x \<noteq> 0)"
| "truthy (Str s) = (s \<noteq> [])"
| "truthy (Date t) = True"
| "truthy (Arr vs) = True"
| "truthy (Obj kvs) = True"

text \<open>\<^verbatim>\<open>a || b\<close>\<close>

definition js_or :: "jsval \<Rightarrow> jsval \<Rightarrow> jsval" where
  "js_or a b = (if truthy a then a else b)"

text \<open>Property read \<^verbatim>\<open>o.k\<close> on an object: \<^verbatim>\<open>undefined\<close> when the property is absent.\<close>

definition getProp :: "(string \<times> jsval) list \<Rightarrow> string \<Rightarrow> jsval" where
  "getProp kvs k = (case map_of kvs k of None \<Rightarrow> Undefined | Some v \<Rightarrow> v)"

definition ownKeys :: "(string \<times> jsval) list \<Rightarrow> string list" where
  "ownKeys kvs = map fst kvs"

subsection \<open>\<^verbatim>\<open>Number.prototype.toFixed\<close>\<close>

text \<open>
  \<^verbatim>\<open>x.toFixed(f)\<close> takes the integer \<open>n\<close> for which \<open>n / 10^f\<close> is closest to \<open>|x|\<close>, the
  larger one on a tie, and prints it with \<open>f\<close> decimals, with a minus sign when \<open>x < 0\<close>.
  \<open>toFixed_scaled\<close> is that integer with the sign of \<open>x\<close>, \<open>toFixed_value\<close> the number the
  printed string denotes (what \<^verbatim>\<open>+s\<close> and a comparison \<^verbatim>\<open>s >= 95\<close> read back from it) and
  \<open>toFixed\<close> the string.  This is the decimal notation, which JavaScript uses for
  \<open>|x| < 10^21\<close>; \<open>toFixed_double\<close> below covers every double.
\<close>

definition toFixed_scaled :: "nat \<Rightarrow> rat \<Rightarrow> int" where
  "toFixed_scaled f x =
     (if x < 0 then - \<lfloor>(- x) * 10 ^ f + 1 / 2\<rfloor> else \<lfloor>x * 10 ^ f + 1 / 2\<rfloor>)"

definition toFixed_value :: "nat \<Rightarrow> rat \<Rightarrow> rat" where
  "toFixed_value f x = of_int (toFixed_scaled f x) / 10 ^ f"

function digits10 :: "int \<Rightarrow> string" where
  "digits10 n =
     (if n < 10 then [char_of (48 + n)] else digits10 (n div 10) @ [char_of (48 + n mod 10)])"
  by auto
termination
  by (relation "measure nat") auto

definition toFixed :: "nat \<Rightarrow> rat \<Rightarrow> string" where
  "toFixed f x =
     (let m = \<bar>toFixed_scaled f x\<bar>;
          frac = digits10 (m mod 10 ^ f)
      in (if x < 0 then ''-'' else '''') @ digits10 (m div 10 ^ f) @
         (if f = 0 then '''' else ''.'' @ replicate (f - length frac) CHR ''0'' @ frac))"

subsection \<open>Doubles\<close>

text \<open>
  A double is a finite value, given by the rational it is exactly, an infinity or \<^verbatim>\<open>NaN\<close>.
  The two zeros are one value: \<^verbatim>\<open>toFixed\<close>, \<^verbatim>\<open>>=\<close> and the truth test do not tell them apart,
  and the code divides by positive numbers only.

  \<open>nearest_double x\<close> is the IEEE 754 binary64 rounding of \<open>x\<close>, to nearest with ties to
  even, with the exponent unbounded upwards: for \<open>2^e \<le> |x| < 2^(e+1)\<close> the multiple of
  \<open>2^(e-52)\<close> nearest to \<open>x\<close>, and a multiple of \<open>2^(-1074)\<close> below \<open>2^(-1022)\<close>.  \<open>fl\<close>
  is the result of an arithmetic operation whose exact result is \<open>x\<close>: the rounding, or an
  infinity when the rounding reaches \<open>2^1024\<close>.
\<close>

datatype double = Finite rat | PosInf | NegInf | NaN

function bit_length :: "int \<Rightarrow> int" where
  "bit_length n = (if n \<le> 0 then 0 else 1 + bit_length (n div 2))"
  by auto
termination
  by (relation "measure nat") auto

definition pow2 :: "int \<Rightarrow> rat" where
  "pow2 e = (if 0 \<le> e then 2 ^ nat e else 1 / 2 ^ nat (- e))"

text \<open>The \<open>e\<close> with \<open>2^e \<le> a < 2^(e+1)\<close>, for \<open>a > 0\<close>.\<close>

definition ilog2 :: "rat \<Rightarrow> int" where
  "ilog2 a =
     (let (p, q) = quotient_of a;
          d = bit_length p - bit_length q
      in if pow2 d \<le> a then d else d - 1)"

definition round_half_even :: "rat \<Rightarrow> int" where
  "round_half_even y =
     (let n = \<lfloor>y\<rfloor>; r = y - of_int n
      in if r < 1 / 2 then n else if 1 / 2 < r then n + 1 else if even n then n else n + 1)"

definition nearest_double :: "rat \<Rightarrow> rat" where
  "nearest_double x =
     (if x = 0 then 0
      else (let a = \<bar>x\<bar>;
                e = max (ilog2 a) (- 1022);
                ulp = pow2 (e - 52)
            in sgn x * of_int (round_half_even (a / ulp)) * ulp))"

definition fl :: "rat \<Rightarrow> double" where
  "fl x =
     (let r = nearest_double x
      in if pow2 1024 \<le> r then PosInf else if r \<le> - pow2 1024 then NegInf else Finite r)"

text \<open>
  The double that \<^verbatim>\<open>JSON.parse\<close> makes of a number literal of value \<open>x\<close>: the nearest one,
  an infinity beyond the range.
\<close>

definition js_number :: "rat \<Rightarrow> double" where
  "js_number x = fl x"

text \<open>The truth test of a number, and \<^verbatim>\<open>d > 0\<close>.\<close>

fun number_truthy :: "double \<Rightarrow> bool" where
  "number_truthy (Finite x) = (x \<noteq> 0)"
| "number_truthy PosInf = True"
| "number_truthy NegInf = True"
| "number_truthy NaN = False"

fun double_gt0 :: "double \<Rightarrow> bool" where
  "double_gt0 (Finite x) = (0 < x)"
| "double_gt0 PosInf = True"
| "double_gt0 NegInf = False"
| "double_gt0 NaN = False"

text \<open>\<^verbatim>\<open>d * 100\<close> on a double.\<close>

fun times100 :: "double \<Rightarrow> double" where
  "times100 (Finite a) = fl (a * 100)"
| "times100 PosInf = PosInf"
| "times100 NegInf = NegInf"
| "times100 NaN = NaN"

text \<open>\<^verbatim>\<open>d >= c\<close> for a double \<open>d\<close> and a finite number \<open>c\<close>.\<close>

fun double_ge :: "double \<Rightarrow> rat \<Rightarrow> bool" where
  "double_ge (Finite x) c = (c \<le> x)"
| "double_ge PosInf c = True"
| "double_ge NegInf c = False"
| "double_ge NaN c = False"

text \<open>
  \<^verbatim>\<open>Number::toString\<close> for a finite double \<open>x \<ge> 10^21\<close>, which is an integer: the decimal
  with the fewest digits \<open>k\<close> that rounds to \<open>x\<close> (17 always suffice), the one nearest to
  \<open>x\<close> if there are two, printed as \<^verbatim>\<open>d.ddde+n\<close>.  With \<open>N\<close> the number of digits of \<open>x\<close>, the
  candidates with \<open>k\<close> digits are the two multiples of \<open>10^(N-k)\<close> around \<open>x\<close>.
\<close>

definition shortest_candidate :: "int \<Rightarrow> nat \<Rightarrow> nat \<Rightarrow> int option" where
  "shortest_candidate x N k =
     (let t = 10 ^ (N - k);
          lo = x div t;
          ok_lo = (nearest_double (of_int (lo * t)) = of_int x);
          ok_hi = (nearest_double (of_int ((lo + 1) * t)) = of_int x)
      in if ok_lo \<and> ok_hi then (if x - lo * t \<le> (lo + 1) * t - x then Some lo else Some (lo + 1))
         else if ok_lo then Some lo
         else if ok_hi then Some (lo + 1)
         else None)"

definition numberToString_large :: "int \<Rightarrow> string" where
  "numberToString_large x =
     (let N = length (digits10 x) in
      case List.find (\<lambda>k. shortest_candidate x N k \<noteq> None) [1..<18] of
        None \<Rightarrow> []
      | Some k \<Rightarrow>
          (let s = the (shortest_candidate x N k);
               ds = (if s = 10 ^ k then ''1'' else digits10 s);
               n = (if s = 10 ^ k then N + 1 else N)
           in (if length ds = 1 then ds else hd ds # ''.'' @ tl ds) @ ''e+'' @ digits10 (int n - 1)))"

text \<open>
  \<^verbatim>\<open>d.toFixed(f)\<close> on a double: the name of an infinity or of \<^verbatim>\<open>NaN\<close>, \<^verbatim>\<open>ToString\<close> of the
  number from \<open>10^21\<close> on, the decimal notation below.  \<open>toFixed_number\<close> is the number
  that string denotes, which a comparison of the string with a number reads back: the
  infinity, \<^verbatim>\<open>NaN\<close>, the double itself (the shortest digits round to it), or the decimal
  printed.  (The comparison takes the double nearest to that decimal; it lies on the same
  side of 95 and of 80, which are doubles, as the decimal.)
\<close>

fun toFixed_double :: "nat \<Rightarrow> double \<Rightarrow> string" where
  "toFixed_double f PosInf = ''Infinity''"
| "toFixed_double f NegInf = ''-Infinity''"
| "toFixed_double f NaN = ''NaN''"
| "toFixed_double f (Finite x) =
     (if 10 ^ 21 \<le> \<bar>x\<bar>
      then (if x < 0 then ''-'' else '''') @ numberToString_large \<lfloor>\<bar>x\<bar>\<rfloor>
      else toFixed f x)"

fun toFixed_number :: "nat \<Rightarrow> double \<Rightarrow> double" where
  "toFixed_number f PosInf = PosInf"
| "toFixed_number f NegInf = NegInf"
| "toFixed_number f NaN = NaN"
| "toFixed_number f (Finite x) =
     (if 10 ^ 21 \<le> \<bar>x\<bar> then Finite x else Finite (toFixed_value f x))"

section \<open>The page\<close>

text \<open>
  A \<^verbatim>\<open>classList\<close> is the list of class tokens of an element.  \<^verbatim>\<open>el.className = 'c'\<close> with a
  single token (the only form in the source) makes it \<open>[c]\<close>, \<^verbatim>\<open>el.className = ''\<close> empties
  it; \<^verbatim>\<open>add\<close> appends a token that is not there yet, \<^verbatim>\<open>remove\<close> deletes it.
\<close>

type_synonym classList = "string list"

definition classList_add :: "string \<Rightarrow> classList \<Rightarrow> classList" where
  "classList_add c cs = (if c \<in> set cs then cs else cs @ [c])"

definition classList_remove :: "string \<Rightarrow> classList \<Rightarrow> classList" where
  "classList_remove c cs = filter (\<lambda>x. x \<noteq> c) cs"

text \<open>
  The markup of the page is not among the sources.  The elements that \<^verbatim>\<open>updateUI\<close> and
  \<^verbatim>\<open>updateSafetyStatus\<close> dereference without a null check are fields of the record and so
  always there; the limit-switch rows, which \<^verbatim>\<open>updateTestIndicator\<close> looks up with a guard,
  are optional: \<open>testRows id\<close> is \<open>None\<close> when \<^verbatim>\<open>getElementById(id)\<close> is \<^verbatim>\<open>null\<close>,
  \<open>Some None\<close> when the row has no \<^verbatim>\<open>.test-indicator\<close> child, and otherwise holds the
  class list of that child.
\<close>

record dom =
  statusLight :: classList
  statusText :: string
  banner :: classList
  message :: string
  percentText :: string
  percentClass :: classList
  testRows :: "string \<Rightarrow> classList option option"

subsection \<open>\<^verbatim>\<open>updateTestIndicator\<close> (app.js, lines 234-248)\<close>

definition updateTestIndicator :: "string \<Rightarrow> jsval \<Rightarrow> jsval \<Rightarrow> dom \<Rightarrow> dom" where
  "updateTestIndicator elementId tested hit d =
     (case testRows d elementId of
        None \<Rightarrow> d
      | Some None \<Rightarrow> d
      | Some (Some indicator) \<Rightarrow>
          (let indicator = [''test-indicator''];
               indicator =
                 (if truthy hit
                  then classList_add (if truthy tested then ''yellow'' else ''red'') indicator
                  else classList_add (if truthy tested then ''green'' else ''grey'') indicator)
           in d\<lparr>testRows := (testRows d)(elementId := Some (Some indicator))\<rparr>))"

subsection \<open>\<^verbatim>\<open>updateSafetyStatus\<close> (app.js, lines 165-195)\<close>

text \<open>
  The \<^verbatim>\<open>switch\<close> compares with \<^verbatim>\<open>===\<close> and has no \<^verbatim>\<open>default\<close>: a value that is none of the
  four strings runs no case.
\<close>

definition warningMessage :: string where
  "warningMessage = [CHR 0xE2, CHR 0x9A, CHR 0xA0, CHR 0xEF, CHR 0xB8, CHR 0x8F] @ '' Load approaching limit''"

definition overloadMessage :: string where
  "overloadMessage = [CHR 0xF0, CHR 0x9F, CHR 0x9A, CHR 0xA8] @ '' OVERLOAD - Operations stopped''"

definition updateSafetyStatus :: "jsval \<Rightarrow> dom \<Rightarrow> dom" where
  "updateSafetyStatus level d =
     (let d = d\<lparr>statusLight := [''status-light'']\<rparr>;
          d = d\<lparr>banner := [''safety-banner'']\<rparr>
      in if level = Str ''safe'' then
           d\<lparr>statusLight := classList_add ''safe'' (statusLight d),
             statusText := ''Safe'',
             banner := classList_add ''hidden'' (banner d)\<rparr>
         else if level = Str ''warning'' then
           d\<lparr>statusLight := classList_add ''warning'' (statusLight d),
             statusText := ''Warning'',
             message := warningMessage,
             banner := classList_remove ''hidden'' (banner d)\<rparr>
         else if level = Str ''overload'' \<or> level = Str ''cutoff'' then
           d\<lparr>statusLight := classList_add ''danger'' (statusLight d),
             statusText := (if level = Str ''cutoff'' then ''CUTOFF'' else ''Overload''),
             message := overloadMessage,
             banner := classList_remove ''hidden'' (classList_add ''danger'' (banner d))\<rparr>
         else d)"

subsection \<open>\<^verbatim>\<open>updateUI\<close> (app.js, lines 113-158)\<close>

text \<open>
  A snapshot is the object \<^verbatim>\<open>JSON.parse\<close> returned.  \<open>load\<close> and \<open>swl\<close> are numbers when
  present (\<open>None\<close>: the property is absent), given by the value of their literal in the
  message, of which \<open>js_number\<close> is the double; \<open>safety_level\<close> and \<open>test_mode\<close> are any
  value, \<open>Undefined\<close> when absent.
\<close>

record snapshot =
  load :: "rat option"
  swl :: "rat option"
  safety_level :: jsval
  test_mode :: jsval

text \<open>
  The percentage the source computes, \<^verbatim>\<open>data.load / data.swl * 100\<close>: a division and a
  multiplication of doubles, each rounded.  The guard lets it be computed only for a
  dividend that is not zero and a divisor greater than zero; a finite number by infinity
  is zero, infinity by infinity is \<^verbatim>\<open>NaN\<close>.
\<close>

fun loadPercent :: "double \<Rightarrow> double \<Rightarrow> double" where
  "loadPercent (Finite l) (Finite s) = times100 (fl (l / s))"
| "loadPercent (Finite l) PosInf = times100 (Finite 0)"
| "loadPercent PosInf (Finite s) = times100 PosInf"
| "loadPercent NegInf (Finite s) = times100 NegInf"
| "loadPercent l s = times100 NaN"

text \<open>
  Lines 121-130.  The guard \<^verbatim>\<open>data.load && data.swl && data.swl > 0\<close> fails for an absent
  property and for a number that is zero as a double.  \<^verbatim>\<open>percent\<close> is the string
  \<^verbatim>\<open>toFixed(1)\<close> returns, and \<^verbatim>\<open>percent >= 95\<close> compares the number that string denotes.
\<close>

definition updateUI_percent :: "snapshot \<Rightarrow> dom \<Rightarrow> dom" where
  "updateUI_percent data d =
     (case (load data, swl data) of
        (Some l, Some s) \<Rightarrow>
          if number_truthy (js_number l) \<and> number_truthy (js_number s) \<and> double_gt0 (js_number s)
          then
            (let percent = toFixed_double 1 (loadPercent (js_number l) (js_number s));
                 percentNum = toFixed_number 1 (loadPercent (js_number l) (js_number s));
                 d = d\<lparr>percentText := percent @ ''%''\<rparr>;
                 d = d\<lparr>percentClass := []\<rparr>
             in if double_ge percentNum 95
                then d\<lparr>percentClass := classList_add ''danger'' (percentClass d)\<rparr>
                else if double_ge percentNum 80
                then d\<lparr>percentClass := classList_add ''warning'' (percentClass d)\<rparr>
                else d)
          else d
      | _ \<Rightarrow> d)"

text \<open>Property read on any value: a primitive has none of the properties read here.\<close>

definition getField :: "jsval \<Rightarrow> string \<Rightarrow> jsval" where
  "getField v k = (case v of Obj kvs \<Rightarrow> getProp kvs k | _ \<Rightarrow> Undefined)"

text \<open>Lines 222-225 of \<^verbatim>\<open>updateTestMode\<close>: the four indicator updates.\<close>

definition updateTestMode_indicators :: "jsval \<Rightarrow> dom \<Rightarrow> dom" where
  "updateTestMode_indicators testData d =
     (let d = updateTestIndicator ''test-ls1'' (getField testData ''ls1_tested'') (getField testData ''ls1_hit'') d;
          d = updateTestIndicator ''test-ls2'' (getField testData ''ls2_tested'') (getField testData ''ls2_hit'') d;
          d = updateTestIndicator ''test-ls3'' (getField testData ''ls3_tested'') (getField testData ''ls3_hit'') d
      in updateTestIndicator ''test-ls4'' (getField testData ''ls4_tested'') (getField testData ''ls4_hit'') d)"

text \<open>
  \<^verbatim>\<open>updateUI\<close> on the elements of \<open>dom\<close>: the percentage (lines 121-130), the safety status
  (line 133) and the test indicators (line 136).  Its other statements write to elements
  that \<open>dom\<close> does not carry.
\<close>

definition updateUI :: "snapshot \<Rightarrow> dom \<Rightarrow> dom" where
  "updateUI data d =
     (let d = updateUI_percent data d;
          d = updateSafetyStatus (js_or (safety_level data) (Str ''safe'')) d
      in updateTestMode_indicators (js_or (test_mode data) (Obj [])) d)"

text \<open>
  The severity the percentage element shows: its class is \<^verbatim>\<open>danger\<close>, \<^verbatim>\<open>warning\<close> or, for
  normal, none.
\<close>

datatype severity = Normal | Warning | Danger

definition percentSeverity :: "dom \<Rightarrow> severity" where
  "percentSeverity d =
     (if ''danger'' \<in> set (percentClass d) then Danger
      else if ''warning'' \<in> set (percentClass d) then Warning else Normal)"

section \<open>The reconnecting client (app.js, lines 5-107)\<close>

text \<open>
  The fields of \<^verbatim>\<open>CraneMonitor\<close> that the connection code uses, and the part of the browser
  it acts on: the stored token, the location, the pending timeouts, the sockets constructed
  and the connection indicator.  \<^verbatim>\<open>setTimeout\<close> returns a fresh handle greater than zero
  (the HTML standard requires it; \<open>nextHandle\<close> starts at 1) and \<^verbatim>\<open>clearTimeout\<close> removes
  the handle from the pending ones.  \<open>ws\<close> is the number of the socket object held in
  \<^verbatim>\<open>this.ws\<close>.
\<close>

record client =
  ws :: "nat option"
  reconnectInterval :: nat
  reconnectTimer :: "nat option"
  monitor_token :: "string option"
  location_href :: string
  timeouts :: "(nat \<times> nat) list"
  nextHandle :: nat
  constructed :: nat
  statusDot :: classList
  connectionText :: string

definition setTimeout :: "nat \<Rightarrow> client \<Rightarrow> nat \<times> client" where
  "setTimeout delay c =
     (nextHandle c, c\<lparr>timeouts := timeouts c @ [(nextHandle c, delay)], nextHandle := nextHandle c + 1\<rparr>)"

definition clearTimeout :: "nat \<Rightarrow> client \<Rightarrow> client" where
  "clearTimeout h c = c\<lparr>timeouts := filter (\<lambda>t. fst t \<noteq> h) (timeouts c)\<rparr>"

text \<open>\<^verbatim>\<open>if (this.reconnectTimer)\<close>: \<^verbatim>\<open>null\<close> and the number 0 are falsy.\<close>

definition timerSet :: "nat option \<Rightarrow> bool" where
  "timerSet t = (case t of None \<Rightarrow> False | Some h \<Rightarrow> h \<noteq> 0)"

definition updateConnectionStatus :: "bool \<Rightarrow> client \<Rightarrow> client" where
  "updateConnectionStatus isConnected c =
     (if isConnected then
        c\<lparr>statusDot := classList_add ''online'' (classList_remove ''offline'' (statusDot c)),
          connectionText := ''Connected''\<rparr>
      else
        c\<lparr>statusDot := classList_add ''offline'' (classList_remove ''online'' (statusDot c)),
          connectionText := ''Mock Data''\<rparr>)"

text \<open>
  The callback given to \<^verbatim>\<open>setTimeout\<close> calls \<^verbatim>\<open>setupWebSocket\<close> and nothing else; a pending
  timeout is therefore its handle and delay only.
\<close>

definition scheduleReconnect :: "client \<Rightarrow> client" where
  "scheduleReconnect c =
     (if \<not> timerSet (reconnectTimer c) then
        (let (h, c) = setTimeout (reconnectInterval c) c in c\<lparr>reconnectTimer := Some h\<rparr>)
      else c)"

text \<open>
  \<open>throws\<close> says whether \<^verbatim>\<open>new WebSocket(wsUrl)\<close> throws, which sends control to the
  \<^verbatim>\<open>catch\<close> block.  A token that is \<^verbatim>\<open>null\<close> or empty redirects to the login page.
\<close>

definition setupWebSocket :: "bool \<Rightarrow> client \<Rightarrow> client" where
  "setupWebSocket throws c =
     (if monitor_token c = None \<or> monitor_token c = Some [] then c\<lparr>location_href := ''/login.html''\<rparr>
      else if throws then scheduleReconnect (updateConnectionStatus False c)
      else c\<lparr>ws := Some (constructed c), constructed := constructed c + 1\<rparr>)"

definition onConnect :: "client \<Rightarrow> client" where
  "onConnect c =
     (let c = updateConnectionStatus True c
      in if timerSet (reconnectTimer c)
         then (clearTimeout (the (reconnectTimer c)) c)\<lparr>reconnectTimer := None\<rparr>
         else c)"

definition onError :: "client \<Rightarrow> client" where
  "onError c = c"

definition onDisconnect :: "client \<Rightarrow> client" where
  "onDisconnect c = scheduleReconnect (updateConnectionStatus False c)"

text \<open>
  The constructor, with \<^verbatim>\<open>init\<close>, in a browser that holds the token \<open>tok\<close>; the connection
  indicator of the page starts without classes and without text.
\<close>

definition construct :: "string option \<Rightarrow> bool \<Rightarrow> client" where
  "construct tok throws =
     setupWebSocket throws (updateConnectionStatus False
       \<lparr>ws = None, reconnectInterval = 5000, reconnectTimer = None, monitor_token = tok,
        location_href = [], timeouts = [], nextHandle = 1, constructed = 0,
        statusDot = [], connectionText = []\<rparr>)"

text \<open>
  What the browser can deliver to the client: the socket events with the handlers installed
  in \<^verbatim>\<open>setupWebSocket\<close>, and the expiry of a pending timeout, which removes it and runs its
  callback.  A handle that is not pending cannot expire.  (\<^verbatim>\<open>onMessage\<close> assigns
  \<^verbatim>\<open>this.data\<close> and updates the page only; it is not an event of this machine.)
\<close>

datatype event = Open | Error | Close | Expire nat bool

fun step :: "client \<Rightarrow> event \<Rightarrow> client" where
  "step c Open = onConnect c"
| "step c Error = onError c"
| "step c Close = onDisconnect c"
| "step c (Expire h throws) =
     (if h \<in> fst ` set (timeouts c) then setupWebSocket throws (clearTimeout h c) else c)"

definition run :: "client \<Rightarrow> event list \<Rightarrow> client" where
  "run c evs = foldl step c evs"

section \<open>The backend (part_001)\<close>

subsection \<open>The readings store (lines 21, 149-158)\<close>

text \<open>
  \<^verbatim>\<open>readings.slice(-1000)\<close> starts at \<open>max (length - 1000) 0\<close>; the truncating subtraction
  of \<open>nat\<close> is that maximum.
\<close>

definition slice_last :: "nat \<Rightarrow> 'a list \<Rightarrow> 'a list" where
  "slice_last n xs = drop (length xs - n) xs"

definition saveReading :: "'a \<Rightarrow> 'a list \<Rightarrow> 'a list" where
  "saveReading data readings =
     (let readings = readings @ [data]
      in if length readings > 1000 then slice_last 1000 readings else readings)"

text \<open>The store after a sequence of ticks, from the empty store of line 21.\<close>

definition saveAll :: "'a list \<Rightarrow> 'a list" where
  "saveAll xs = foldl (\<lambda>readings data. saveReading data readings) [] xs"

subsection \<open>The tick object (lines 137-147)\<close>

text \<open>
  The five results of \<^verbatim>\<open>Math.random()\<close>, in the order of the calls, and the time of
  \<^verbatim>\<open>new Date()\<close> are inputs.  \<^verbatim>\<open>+(x).toFixed(2)\<close> is the number the string denotes.
\<close>

record randoms =
  r_load :: rat
  r_fork :: rat
  r_battery :: rat
  r_minutes :: rat
  r_active :: rat

definition tickData :: "randoms \<Rightarrow> int \<Rightarrow> (string \<times> jsval) list" where
  "tickData r now =
     [(''load'', Num (toFixed_value 2 (r_load r * 2000))),
      (''swl'', Num 2500),
      (''fork_position'', Num (toFixed_value 2 (r_fork r * 5))),
      (''battery'', Num (of_int \<lfloor>50 + r_battery r * 50\<rfloor>)),
      (''safety_level'', Str ''safe''),
      (''utilization_minutes'', Num (of_int \<lfloor>r_minutes r * 300\<rfloor>)),
      (''utilization_active'', Bool (r_active r > 3 / 10)),
      (''counters'', Obj [(''liftup'', Num 10), (''liftdown'', Num 5)]),
      (''timestamp'', Date now)]"

subsection \<open>Connections (lines 113-168)\<close>

text \<open>
  A socket records the close it was given and what was sent on it; a message is the object
  handed to \<^verbatim>\<open>JSON.stringify\<close>, which keeps every property of the tick object (none is
  \<^verbatim>\<open>undefined\<close>).  Closing a closed socket and sending on one change nothing.  The server state is the readings store, the running interval timers with
  the connection each serves, and the sockets by connection number.
\<close>

record socket =
  closed :: "(nat \<times> string) option"
  sent :: "(string \<times> jsval) list list"

record server =
  readings :: "(string \<times> jsval) list list"
  intervals :: "(nat \<times> nat) list"
  nextInterval :: nat
  sockets :: "nat \<Rightarrow> socket"

definition ws_close :: "nat \<Rightarrow> string \<Rightarrow> socket \<Rightarrow> socket" where
  "ws_close code reason sock =
     (if closed sock = None then sock\<lparr>closed := Some (code, reason)\<rparr> else sock)"

definition ws_send :: "(string \<times> jsval) list \<Rightarrow> socket \<Rightarrow> socket" where
  "ws_send msg sock = (if closed sock = None then sock\<lparr>sent := sent sock @ [msg]\<rparr> else sock)"

text \<open>
  The request as the handler reads it: \<^verbatim>\<open>req.url\<close> and \<^verbatim>\<open>req.headers.host\<close>.  The two
  library calls of the handler are parameters: \<open>getToken\<close> is
  \<^verbatim>\<open>new URL(req.url, `http://${req.headers.host}`).searchParams.get('token')\<close>, which throws on
  an unparsable URL and else returns the parameter or \<^verbatim>\<open>null\<close>; \<open>verify\<close> says whether
  \<^verbatim>\<open>jwt.verify(token, JWT_SECRET)\<close> returns (it throws otherwise).
\<close>

record request =
  url :: string
  host :: "string option"

datatype 'a outcome = Throws | Returns 'a

definition on_connection ::
  "(request \<Rightarrow> string option outcome) \<Rightarrow> (string \<Rightarrow> bool) \<Rightarrow> nat \<Rightarrow> request \<Rightarrow> server \<Rightarrow> server" where
  "on_connection getToken verify conn req s =
     (let hasQuery = CHR ''?'' \<in> set (url req);
          token = (if hasQuery then getToken req else Returns None)
      in case token of
           Throws \<Rightarrow> s\<lparr>sockets := (sockets s)(conn := ws_close 1011 ''Server error'' (sockets s conn))\<rparr>
         | Returns t \<Rightarrow>
             if t = None \<or> t = Some [] then
               s\<lparr>sockets := (sockets s)(conn := ws_close 1008 ''Unauthorized'' (sockets s conn))\<rparr>
             else if \<not> verify (the t) then
               s\<lparr>sockets := (sockets s)(conn := ws_close 1008 ''Invalid token'' (sockets s conn))\<rparr>
             else
               s\<lparr>intervals := intervals s @ [(nextInterval s, conn)],
                 nextInterval := nextInterval s + 1\<rparr>)"

text \<open>One run of the interval callback of the session on connection \<open>conn\<close>.\<close>

definition tick :: "randoms \<Rightarrow> int \<Rightarrow> nat \<Rightarrow> server \<Rightarrow> server" where
  "tick r now conn s =
     (let data = tickData r now;
          s = s\<lparr>readings := saveReading data (readings s)\<rparr>
      in s\<lparr>sockets := (sockets s)(conn := ws_send data (sockets s conn))\<rparr>)"

text \<open>The \<^verbatim>\<open>close\<close> handler of a session: \<^verbatim>\<open>clearInterval(timer)\<close>.\<close>

definition on_close :: "nat \<Rightarrow> server \<Rightarrow> server" where
  "on_close conn s = s\<lparr>intervals := filter (\<lambda>t. snd t \<noteq> conn) (intervals s)\<rparr>"

text \<open>A new connection: an open socket on which nothing was sent.\<close>

definition newSocket :: socket where
  "newSocket = \<lparr>closed = None, sent = []\<rparr>"

definition accept :: "nat \<Rightarrow> server \<Rightarrow> server" where
  "accept conn s = s\<lparr>sockets := (sockets s)(conn := newSocket)\<rparr>"

definition server0 :: server where
  "server0 = \<lparr>readings = [], intervals = [], nextInterval = 1, sockets = (\<lambda>_. newSocket)\<rparr>"

text \<open>
  What happens at the server: a connection arrives (the \<^verbatim>\<open>connection\<close> handler runs on its new
  socket), an interval timer fires (its callback runs if the timer is still set), or a peer
  closes with some code and reason (the socket is closed and the \<^verbatim>\<open>close\<close> handler of its
  session, if it has one, runs).
\<close>

datatype sevent = Connect nat request | Tick nat randoms int | Disconnect nat nat string

fun server_step ::
  "(request \<Rightarrow> string option outcome) \<Rightarrow> (string \<Rightarrow> bool) \<Rightarrow> server \<Rightarrow> sevent \<Rightarrow> server" where
  "server_step getToken verify s (Connect conn req) =
     on_connection getToken verify conn req (accept conn s)"
| "server_step getToken verify s (Tick h r now) =
     (case map_of (intervals s) h of None \<Rightarrow> s | Some conn \<Rightarrow> tick r now conn s)"
| "server_step getToken verify s (Disconnect conn code reason) =
     on_close conn (s\<lparr>sockets := (sockets s)(conn := ws_close code reason (sockets s conn))\<rparr>)"

definition server_run ::
  "(request \<Rightarrow> string option outcome) \<Rightarrow> (string \<Rightarrow> bool) \<Rightarrow> server \<Rightarrow> sevent list \<Rightarrow> server" where
  "server_run getToken verify s evs = foldl (server_step getToken verify) s evs"

section \<open>Example inputs\<close>

text \<open>A page as the dashboard shows it before the first message.\<close>

definition dom0 :: dom where
  "dom0 =
     \<lparr>statusLight = [''status-light''], statusText = ''--'',
      banner = [''safety-banner'', ''hidden''], message = [],
      percentText = ''0%'', percentClass = [],
      testRows = (\<lambda>i. if i \<in> {''test-ls1'', ''test-ls2'', ''test-ls3'', ''test-ls4''}
                       then Some (Some [''test-indicator'', ''grey'']) else None)\<rparr>"

text \<open>A snapshot with load 94.96 and safe working load 100, and one without \<^verbatim>\<open>swl\<close>.\<close>

definition load_9496 :: rat where
  "load_9496 = 9496 / 100"

definition snapshot_9496 :: snapshot where
  "snapshot_9496 =
     \<lparr>load = Some load_9496, swl = Some 100, safety_level = Str ''safe'', test_mode = Undefined\<rparr>"

definition snapshot_noswl :: snapshot where
  "snapshot_noswl =
     \<lparr>load = Some 96, swl = None, safety_level = Str ''safe'', test_mode = Undefined\<rparr>"

text \<open>
  Two requests, \<^verbatim>\<open>/ws\<close> without a query and \<^verbatim>\<open>/ws?token=bad\<close>, the query lookup on them, and
  a verifier that accepts no token.
\<close>

definition request_plain :: request where
  "request_plain = \<lparr>url = ''/ws'', host = Some ''localhost:3001''\<rparr>"

definition request_bad :: request where
  "request_bad = \<lparr>url = ''/ws?token=bad'', host = Some ''localhost:3001''\<rparr>"

definition getToken_example :: "request \<Rightarrow> string option outcome" where
  "getToken_example req = (if url req = ''/ws?token=bad'' then Returns (Some ''bad'') else Returns None)"

definition verify_none :: "string \<Rightarrow> bool" where
  "verify_none t = False"

text \<open>
  A request without a token whose \<^verbatim>\<open>Host\<close> header, \<^verbatim>\<open>a b\<close>, makes \<^verbatim>\<open>http://a b\<close> no URL, so
  that the \<^verbatim>\<open>URL\<close> constructor throws; and the query lookup that throws on it.
\<close>

definition request_badhost :: request where
  "request_badhost = \<lparr>url = ''/ws?foo=1'', host = Some ''a b''\<rparr>"

definition getToken_badhost :: "request \<Rightarrow> string option outcome" where
  "getToken_badhost req = (if host req = Some ''a b'' then Throws else getToken_example req)"

definition randoms0 :: randoms where
  "randoms0 = \<lparr>r_load = 1 / 2, r_fork = 1 / 4, r_battery = 1 / 2, r_minutes = 1 / 3, r_active = 1 / 2\<rparr>"

text \<open>Snapshots that differ in the safety level only, and one with an unknown level.\<close>

definition snapshot_level :: "jsval \<Rightarrow> snapshot" where
  "snapshot_level v = \<lparr>load = Some 96, swl = Some 100, safety_level = v, test_mode = Undefined\<rparr>"

section \<open>The invariant of the reconnect timer\<close>

text \<open>
  The delay is 5000 ms, handles are positive, and a pending timeout is the one whose handle
  \<^verbatim>\<open>this.reconnectTimer\<close> holds.
\<close>

definition reconnect_inv :: "client \<Rightarrow> bool" where
  "reconnect_inv c \<longleftrightarrow>
     reconnectInterval c = 5000 \<and> 0 < nextHandle c \<and>
     (\<forall>h. reconnectTimer c = Some h \<longrightarrow> 0 < h) \<and>
     (timeouts c = [] \<or> (\<exists>h. timeouts c = [(h, 5000)] \<and> reconnectTimer c = Some h))"

text \<open>
  Two server states with the same store and the same running timers; they can differ in
  their sockets only.
\<close>

definition same_store :: "server \<Rightarrow> server \<Rightarrow> bool" where
  "same_store s t \<longleftrightarrow>
     readings s = readings t \<and> intervals s = intervals t \<and> nextInterval s = nextInterval t"

section \<open>The safety banner\<close>

lemma percent_keeps_safety:
  "banner (updateUI_percent data d) = banner d"
  "message (updateUI_percent data d) = message d"
  "statusText (updateUI_percent data d) = statusText d"
  "statusLight (updateUI_percent data d) = statusLight d"
  by (simp_all add: updateUI_percent_def Let_def split: option.splits)

lemma indicator_keeps_safety:
  "banner (updateTestIndicator i t h d) = banner d"
  "message (updateTestIndicator i t h d) = message d"
  "statusText (updateTestIndicator i t h d) = statusText d"
  "statusLight (updateTestIndicator i t h d) = statusLight d"
  by (simp_all add: updateTestIndicator_def Let_def split: option.splits)

lemma indicators_keep_safety:
  "banner (updateTestMode_indicators td d) = banner d"
  "message (updateTestMode_indicators td d) = message d"
  "statusText (updateTestMode_indicators td d) = statusText d"
  "statusLight (updateTestMode_indicators td d) = statusLight d"
  by (simp_all add: updateTestMode_indicators_def Let_def indicator_keeps_safety)

lemma updateUI_safety:
  "banner (updateUI data d) =
     banner (updateSafetyStatus (js_or (safety_level data) (Str ''safe'')) (updateUI_percent data d))"
  "message (updateUI data d) =
     message (updateSafetyStatus (js_or (safety_level data) (Str ''safe'')) (updateUI_percent data d))"
  "statusText (updateUI data d) =
     statusText (updateSafetyStatus (js_or (safety_level data) (Str ''safe'')) (updateUI_percent data d))"
  by (simp_all add: updateUI_def Let_def indicators_keep_safety)

lemma safety_danger:
  "level = Str ''overload'' \<or> level = Str ''cutoff'' \<Longrightarrow>
   banner (updateSafetyStatus level d) = [''safety-banner'', ''danger''] \<and>
   message (updateSafetyStatus level d) = overloadMessage \<and>
   statusText (updateSafetyStatus level d) = (if level = Str ''cutoff'' then ''CUTOFF'' else ''Overload'')"
  by (auto simp add: updateSafetyStatus_def classList_add_def classList_remove_def Let_def)

lemma safety_unmatched:
  "level \<notin> {Str ''safe'', Str ''warning'', Str ''overload'', Str ''cutoff''} \<Longrightarrow>
   updateSafetyStatus level d = d\<lparr>statusLight := [''status-light''], banner := [''safety-banner'']\<rparr>"
  by (simp add: updateSafetyStatus_def Let_def)

text \<open>
  Claim C1, as the code has it: for every snapshot whose \<^verbatim>\<open>safety_level\<close> is \<^verbatim>\<open>overload\<close> or
  \<^verbatim>\<open>cutoff\<close>, after \<^verbatim>\<open>updateUI\<close> the banner is visible (its class list is
  \<^verbatim>\<open>safety-banner danger\<close>, without \<^verbatim>\<open>hidden\<close>) with the severity class \<^verbatim>\<open>danger\<close>, the
  banner message is the same text for both levels, and the status text is what tells them
  apart: \<^verbatim>\<open>CUTOFF\<close> for cutoff, \<^verbatim>\<open>Overload\<close> for overload.
\<close>

theorem overload_cutoff_banner:
  assumes "safety_level data = Str ''overload'' \<or> safety_level data = Str ''cutoff''"
  shows "banner (updateUI data d) = [''safety-banner'', ''danger''] \<and>
         ''hidden'' \<notin> set (banner (updateUI data d)) \<and>
         message (updateUI data d) = overloadMessage \<and>
         statusText (updateUI data d) =
           (if safety_level data = Str ''cutoff'' then ''CUTOFF'' else ''Overload'')"
proof -
  have arg: "js_or (safety_level data) (Str ''safe'') = safety_level data"
    using assms by (auto simp add: js_or_def)
  show ?thesis
    using safety_danger[OF assms, of "updateUI_percent data d"]
    by (simp add: updateUI_safety arg)
qed

text \<open>The theorem of C1 at a cutoff snapshot on the example page.\<close>

theorem overload_cutoff_banner_witness:
  "banner (updateUI (snapshot_level (Str ''cutoff'')) dom0) = [''safety-banner'', ''danger''] \<and>
   statusText (updateUI (snapshot_level (Str ''cutoff'')) dom0) = ''CUTOFF''"
  using overload_cutoff_banner[of "snapshot_level (Str ''cutoff'')" dom0]
  by (simp add: snapshot_level_def)

text \<open>
  Against C1 as stated: the banner message of a cutoff snapshot is the banner message of an
  overload snapshot, so the message text does not distinguish the two.
\<close>

theorem cutoff_message_is_overload_message:
  "message (updateUI (snapshot_level (Str ''cutoff'')) dom0) =
   message (updateUI (snapshot_level (Str ''overload'')) dom0)"
  by (simp add: updateUI_safety js_or_def snapshot_level_def updateSafetyStatus_def Let_def)

text \<open>
  Claim C10, as the code has it: a \<^verbatim>\<open>safety_level\<close> that is none of \<^verbatim>\<open>safe\<close>, \<^verbatim>\<open>warning\<close>,
  \<^verbatim>\<open>overload\<close>, \<^verbatim>\<open>cutoff\<close> makes \<^verbatim>\<open>updateSafetyStatus\<close> reset the class lists of the status
  light and of the banner (the banner loses \<^verbatim>\<open>hidden\<close> and shows) and change nothing else,
  so the banner message and the status text stay what the page held before.  \<^verbatim>\<open>updateUI\<close>
  passes the value of the snapshot on when it is truthy; a value that is not (the field is
  absent, or it is \<^verbatim>\<open>null\<close>, \<^verbatim>\<open>false\<close>, 0 or the empty string) it replaces by \<^verbatim>\<open>safe\<close>, and
  then the banner is hidden and the status text is \<^verbatim>\<open>Safe\<close>.
\<close>

theorem unknown_level_keeps_previous_text:
  "(level \<notin> {Str ''safe'', Str ''warning'', Str ''overload'', Str ''cutoff''} \<longrightarrow>
      updateSafetyStatus level d = d\<lparr>statusLight := [''status-light''], banner := [''safety-banner'']\<rparr>) \<and>
   (truthy (safety_level data) \<and>
    safety_level data \<notin> {Str ''safe'', Str ''warning'', Str ''overload'', Str ''cutoff''} \<longrightarrow>
      banner (updateUI data d) = [''safety-banner''] \<and> ''hidden'' \<notin> set (banner (updateUI data d)) \<and>
      message (updateUI data d) = message d \<and> statusText (updateUI data d) = statusText d) \<and>
   (\<not> truthy (safety_level data) \<longrightarrow>
      updateUI data d = updateUI (data\<lparr>safety_level := Str ''safe''\<rparr>) d \<and>
      banner (updateUI data d) = [''safety-banner'', ''hidden''] \<and>
      statusText (updateUI data d) = ''Safe'' \<and> message (updateUI data d) = message d)"
proof (intro conjI impI)
  assume "level \<notin> {Str ''safe'', Str ''warning'', Str ''overload'', Str ''cutoff''}"
  then show "updateSafetyStatus level d = d\<lparr>statusLight := [''status-light''], banner := [''safety-banner'']\<rparr>"
    by (rule safety_unmatched)
next
  assume a: "truthy (safety_level data) \<and>
    safety_level data \<notin> {Str ''safe'', Str ''warning'', Str ''overload'', Str ''cutoff''}"
  then have arg: "js_or (safety_level data) (Str ''safe'') = safety_level data"
    by (simp add: js_or_def)
  have u: "updateSafetyStatus (safety_level data) (updateUI_percent data d) =
      (updateUI_percent data d)\<lparr>statusLight := [''status-light''], banner := [''safety-banner'']\<rparr>"
    using a by (intro safety_unmatched) simp
  show "banner (updateUI data d) = [''safety-banner'']"
    by (simp add: updateUI_safety arg u)
  then show "''hidden'' \<notin> set (banner (updateUI data d))"
    by simp
  show "message (updateUI data d) = message d"
    by (simp add: updateUI_safety arg u percent_keeps_safety)
  show "statusText (updateUI data d) = statusText d"
    by (simp add: updateUI_safety arg u percent_keeps_safety)
next
  assume a: "\<not> truthy (safety_level data)"
  then have arg: "js_or (safety_level data) (Str ''safe'') = Str ''safe''"
    by (simp add: js_or_def)
  show "updateUI data d = updateUI (data\<lparr>safety_level := Str ''safe''\<rparr>) d"
    using a by (simp add: updateUI_def js_or_def updateUI_percent_def)
  show "banner (updateUI data d) = [''safety-banner'', ''hidden'']"
    by (simp add: updateUI_safety arg updateSafetyStatus_def Let_def classList_add_def)
  show "statusText (updateUI data d) = ''Safe''"
    by (simp add: updateUI_safety arg updateSafetyStatus_def Let_def)
  show "message (updateUI data d) = message d"
    by (simp add: updateUI_safety arg updateSafetyStatus_def Let_def percent_keeps_safety)
qed

text \<open>
  The theorem of C10 at the level \<^verbatim>\<open>maintenance\<close> on the example page, whose banner was
  hidden, and at a snapshot without \<^verbatim>\<open>safety_level\<close>.
\<close>

theorem unknown_level_keeps_previous_text_witness:
  "updateSafetyStatus (Str ''maintenance'') dom0 =
     dom0\<lparr>statusLight := [''status-light''], banner := [''safety-banner'']\<rparr> \<and>
   banner (updateUI (snapshot_level (Str ''maintenance'')) dom0) = [''safety-banner''] \<and>
   message (updateUI (snapshot_level (Str ''maintenance'')) dom0) = message dom0 \<and>
   statusText (updateUI (snapshot_level (Str ''maintenance'')) dom0) = statusText dom0 \<and>
   banner (updateUI (snapshot_level Undefined) dom0) = [''safety-banner'', ''hidden''] \<and>
   statusText (updateUI (snapshot_level Undefined) dom0) = ''Safe''"
proof -
  note at_unknown = unknown_level_keeps_previous_text[of "Str ''maintenance''" dom0
      "snapshot_level (Str ''maintenance'')"]
  note at_absent = unknown_level_keeps_previous_text[of "Str ''maintenance''" dom0
      "snapshot_level Undefined"]
  have known: "Str ''maintenance'' \<notin> {Str ''safe'', Str ''warning'', Str ''overload'', Str ''cutoff''}"
    by simp
  have given: "truthy (safety_level (snapshot_level (Str ''maintenance''))) \<and>
      safety_level (snapshot_level (Str ''maintenance'')) \<notin>
        {Str ''safe'', Str ''warning'', Str ''overload'', Str ''cutoff''}"
    by (simp add: snapshot_level_def)
  have absent: "\<not> truthy (safety_level (snapshot_level Undefined))"
    by (simp add: snapshot_level_def)
  note a = at_unknown[THEN conjunct1, THEN mp, OF known]
  note b = at_unknown[THEN conjunct2, THEN conjunct1, THEN mp, OF given]
  note c = at_absent[THEN conjunct2, THEN conjunct2, THEN mp, OF absent]
  note c1 = c[THEN conjunct2, THEN conjunct1]
  note c2 = c[THEN conjunct2, THEN conjunct2, THEN conjunct1]
  from a b c1 c2 show ?thesis
    by simp
qed

text \<open>
  Against C10 as stated: \<^verbatim>\<open>null\<close> and the empty string are values outside the four levels,
  and a snapshot that carries one of them leaves the banner hidden and writes the status
  text \<^verbatim>\<open>Safe\<close> over what the page held.
\<close>

theorem falsy_level_rendered_as_safe:
  "Null \<notin> {Str ''safe'', Str ''warning'', Str ''overload'', Str ''cutoff''} \<and>
   ''hidden'' \<in> set (banner (updateUI (snapshot_level Null) dom0)) \<and>
   statusText (updateUI (snapshot_level Null) dom0) \<noteq> statusText dom0 \<and>
   Str [] \<notin> {Str ''safe'', Str ''warning'', Str ''overload'', Str ''cutoff''} \<and>
   ''hidden'' \<in> set (banner (updateUI (snapshot_level (Str [])) dom0)) \<and>
   statusText (updateUI (snapshot_level (Str [])) dom0) \<noteq> statusText dom0"
  by (simp add: updateUI_safety js_or_def snapshot_level_def updateSafetyStatus_def Let_def
      classList_add_def percent_keeps_safety dom0_def)

section \<open>The load percentage\<close>

text \<open>Rounding to one decimal reaches a whole number \<open>k\<close> from \<open>k - 0.05\<close> on.\<close>

lemma toFixed1_ge:
  fixes k :: int
  assumes "0 < k"
  shows "of_int k \<le> toFixed_value 1 x \<longleftrightarrow> of_int k - 1 / 20 \<le> x"
proof (cases "x < 0")
  case True
  then have "toFixed_scaled 1 x \<le> 0"
    by (simp add: toFixed_scaled_def)
  then have "toFixed_value 1 x \<le> 0"
    by (simp add: toFixed_value_def)
  with True assms show ?thesis
    by auto
next
  case False
  have "of_int k \<le> toFixed_value 1 x \<longleftrightarrow> of_int (k * 10) \<le> (of_int \<lfloor>x * 10 + 1 / 2\<rfloor> :: rat)"
    using False by (simp add: toFixed_value_def toFixed_scaled_def field_simps)
  also have "\<dots> \<longleftrightarrow> k * 10 \<le> \<lfloor>x * 10 + 1 / 2\<rfloor>"
    by (simp only: of_int_le_iff)
  also have "\<dots> \<longleftrightarrow> of_int (k * 10) \<le> x * 10 + 1 / 2"
    by (simp only: le_floor_iff)
  also have "\<dots> \<longleftrightarrow> of_int k - 1 / 20 \<le> x"
    by (simp add: field_simps)
  finally show ?thesis .
qed

lemma rounded_ge_95: "95 \<le> toFixed_value 1 x \<longleftrightarrow> 9495 / 100 \<le> x"
  using toFixed1_ge[of 95 x] by simp

lemma rounded_ge_80: "80 \<le> toFixed_value 1 x \<longleftrightarrow> 7995 / 100 \<le> x"
  using toFixed1_ge[of 80 x] by simp

lemma printed_ge_95: "double_ge (toFixed_number 1 p) 95 \<longleftrightarrow> double_ge p (9495 / 100)"
proof (cases p)
  case (Finite x)
  show ?thesis
  proof (cases "10 ^ 21 \<le> \<bar>x\<bar>")
    case True
    then show ?thesis
      using Finite by (auto simp del: One_nat_def)
  next
    case False
    then show ?thesis
      using Finite by (simp add: rounded_ge_95 del: One_nat_def)
  qed
qed simp_all

lemma printed_ge_80: "double_ge (toFixed_number 1 p) 80 \<longleftrightarrow> double_ge p (7995 / 100)"
proof (cases p)
  case (Finite x)
  show ?thesis
  proof (cases "10 ^ 21 \<le> \<bar>x\<bar>")
    case True
    then show ?thesis
      using Finite by (auto simp del: One_nat_def)
  next
    case False
    then show ?thesis
      using Finite by (simp add: rounded_ge_80 del: One_nat_def)
  qed
qed simp_all

lemma double_ge_mono: "double_ge p c \<Longrightarrow> c' \<le> c \<Longrightarrow> double_ge p c'"
  by (cases p) simp_all

text \<open>A number that is not positive is read as a double that is not positive.\<close>

lemma pow2_pos: "0 < pow2 e"
  by (simp add: pow2_def)

lemma round_half_even_nonneg: "0 \<le> y \<Longrightarrow> 0 \<le> round_half_even y"
proof -
  assume "0 \<le> y"
  then have "0 \<le> \<lfloor>y\<rfloor>"
    by simp
  then show ?thesis
    by (simp add: round_half_even_def Let_def)
qed

lemma nearest_double_nonpos:
  assumes "x \<le> 0"
  shows "nearest_double x \<le> 0"
proof (cases "x = 0")
  case True
  then show ?thesis
    by (simp add: nearest_double_def)
next
  case False
  let ?ulp = "pow2 (max (ilog2 \<bar>x\<bar>) (- 1022) - 52)"
  have "0 \<le> \<bar>x\<bar> / ?ulp"
    using pow2_pos[of "max (ilog2 \<bar>x\<bar>) (- 1022) - 52"] by simp
  then have "0 \<le> round_half_even (\<bar>x\<bar> / ?ulp)"
    by (rule round_half_even_nonneg)
  then have "0 \<le> (of_int (round_half_even (\<bar>x\<bar> / ?ulp)) :: rat) * ?ulp"
    using pow2_pos[of "max (ilog2 \<bar>x\<bar>) (- 1022) - 52"] by simp
  moreover have "sgn x = - 1"
    using assms False by simp
  ultimately show ?thesis
    using False by (simp add: nearest_double_def Let_def mult.assoc)
qed

lemma js_number_nonpos: "s \<le> 0 \<Longrightarrow> \<not> double_gt0 (js_number s)"
  using nearest_double_nonpos[of s] pow2_pos[of 1024]
  by (auto simp add: js_number_def fl_def Let_def)

lemma percent_class:
  assumes "load data = Some l" "swl data = Some s"
    "number_truthy (js_number l)" "double_gt0 (js_number s)"
  shows "percentClass (updateUI_percent data d) =
           (if double_ge (loadPercent (js_number l) (js_number s)) (9495 / 100) then [''danger'']
            else if double_ge (loadPercent (js_number l) (js_number s)) (7995 / 100)
            then [''warning''] else [])"
proof -
  have "number_truthy (js_number s)"
    using assms(4) by (cases "js_number s") simp_all
  then show ?thesis
    using assms
    by (simp add: updateUI_percent_def Let_def classList_add_def printed_ge_95 printed_ge_80
        del: One_nat_def)
qed

lemma percent_skipped:
  assumes "swl data = None \<or> (\<exists>s. swl data = Some s \<and> s \<le> 0)"
  shows "updateUI_percent data d = d"
  using assms js_number_nonpos
  by (auto simp add: updateUI_percent_def split: option.splits)

lemma js_number_9496: "js_number load_9496 = Finite (6682215947110973 / 70368744177664)"
  unfolding load_9496_def by code_simp

lemma js_number_100: "js_number 100 = Finite 100"
  by code_simp

lemma loadPercent_9496:
  "loadPercent (js_number load_9496) (js_number 100) =
     Finite (6682215947110973 / 70368744177664)"
  unfolding js_number_9496 js_number_100 by code_simp

text \<open>
  Claim C2, as the code has it: the severity follows the percentage that the code computes
  in double arithmetic, \<open>loadPercent\<close> of the two doubles, rounded to one decimal, the number
  the page prints.  For a snapshot whose \<^verbatim>\<open>load\<close> is not zero and whose \<^verbatim>\<open>swl\<close> is greater
  than zero (as doubles) the severity is danger iff that percentage is at least 94.95 (it
  prints as 95.0 or more), warning iff it is at least 79.95 and less than 94.95, and normal
  (no class) iff it is less than 79.95 or \<^verbatim>\<open>NaN\<close>; when \<^verbatim>\<open>swl\<close> is absent or not positive
  the percentage element is not touched.
\<close>

theorem percent_severity_thresholds:
  "(load data = Some l \<and> swl data = Some s \<and>
    number_truthy (js_number l) \<and> double_gt0 (js_number s) \<longrightarrow>
      (percentSeverity (updateUI_percent data d) = Danger \<longleftrightarrow>
         double_ge (loadPercent (js_number l) (js_number s)) (9495 / 100)) \<and>
      (percentSeverity (updateUI_percent data d) = Warning \<longleftrightarrow>
         double_ge (loadPercent (js_number l) (js_number s)) (7995 / 100) \<and>
         \<not> double_ge (loadPercent (js_number l) (js_number s)) (9495 / 100)) \<and>
      (percentSeverity (updateUI_percent data d) = Normal \<longleftrightarrow>
         \<not> double_ge (loadPercent (js_number l) (js_number s)) (7995 / 100))) \<and>
   (swl data = None \<or> (\<exists>s. swl data = Some s \<and> s \<le> 0) \<longrightarrow> updateUI_percent data d = d)"
proof (intro conjI impI)
  assume "swl data = None \<or> (\<exists>s. swl data = Some s \<and> s \<le> 0)"
  then show "updateUI_percent data d = d"
    by (rule percent_skipped)
next
  let ?p = "loadPercent (js_number l) (js_number s)"
  assume a: "load data = Some l \<and> swl data = Some s \<and>
    number_truthy (js_number l) \<and> double_gt0 (js_number s)"
  then have cls: "percentClass (updateUI_percent data d) =
      (if double_ge ?p (9495 / 100) then [''danger'']
       else if double_ge ?p (7995 / 100) then [''warning''] else [])"
    by (intro percent_class) simp_all
  have mono: "double_ge ?p (9495 / 100) \<Longrightarrow> double_ge ?p (7995 / 100)"
    by (erule double_ge_mono) simp
  show "percentSeverity (updateUI_percent data d) = Danger \<longleftrightarrow> double_ge ?p (9495 / 100)"
    by (simp add: percentSeverity_def cls)
  show "percentSeverity (updateUI_percent data d) = Warning \<longleftrightarrow>
      double_ge ?p (7995 / 100) \<and> \<not> double_ge ?p (9495 / 100)"
    using mono by (auto simp add: percentSeverity_def cls)
  show "percentSeverity (updateUI_percent data d) = Normal \<longleftrightarrow> \<not> double_ge ?p (7995 / 100)"
    using mono by (auto simp add: percentSeverity_def cls)
qed

text \<open>The theorem of C2 at load 94.96 of 100, and at a snapshot without \<^verbatim>\<open>swl\<close>.\<close>

theorem percent_severity_thresholds_witness:
  "number_truthy (js_number load_9496) \<and> double_gt0 (js_number 100) \<and>
   percentSeverity (updateUI_percent snapshot_9496 dom0) = Danger \<and>
   updateUI_percent snapshot_noswl dom0 = dom0"
proof -
  have given: "load snapshot_9496 = Some load_9496 \<and> swl snapshot_9496 = Some 100 \<and>
      number_truthy (js_number load_9496) \<and> double_gt0 (js_number 100)"
    by (simp add: snapshot_9496_def js_number_9496 js_number_100)
  have absent: "swl snapshot_noswl = None \<or> (\<exists>s. swl snapshot_noswl = Some s \<and> s \<le> 0)"
    by (simp add: snapshot_noswl_def)
  note a = percent_severity_thresholds[of snapshot_9496 load_9496 100 dom0,
      THEN conjunct1, THEN mp, OF given, THEN conjunct1]
  note b = percent_severity_thresholds[of snapshot_noswl 0 0 dom0,
      THEN conjunct2, THEN mp, OF absent]
  have "double_ge (loadPercent (js_number load_9496) (js_number 100)) (9495 / 100)"
    by (simp add: loadPercent_9496)
  with a have "percentSeverity (updateUI_percent snapshot_9496 dom0) = Danger"
    by simp
  with given b show ?thesis
    by simp
qed

text \<open>
  Against C2 as stated: at load 94.96 of 100 the percentage, as computed and as the exact
  quotient, is between 80 and 95, and the severity is not warning (it is danger: the page
  prints 95.0).
\<close>

theorem percent_9496_not_warning:
  "\<not> (percentSeverity (updateUI_percent snapshot_9496 dom0) = Warning \<longleftrightarrow>
        double_ge (loadPercent (js_number load_9496) (js_number 100)) 80 \<and>
        \<not> double_ge (loadPercent (js_number load_9496) (js_number 100)) 95) \<and>
   80 \<le> load_9496 / 100 * 100 \<and> load_9496 / 100 * 100 < 95"
proof -
  have "percentClass (updateUI_percent snapshot_9496 dom0) =
      (if double_ge (loadPercent (js_number load_9496) (js_number 100)) (9495 / 100)
       then [''danger'']
       else if double_ge (loadPercent (js_number load_9496) (js_number 100)) (7995 / 100)
       then [''warning''] else [])"
    by (rule percent_class) (simp_all add: snapshot_9496_def js_number_9496 js_number_100)
  then have "percentClass (updateUI_percent snapshot_9496 dom0) = [''danger'']"
    unfolding loadPercent_9496 by simp
  then show ?thesis
    unfolding loadPercent_9496 by (simp add: percentSeverity_def load_9496_def)
qed

section \<open>The test indicators\<close>

text \<open>
  Claim C5: for every pair of booleans \<open>(tested, hit)\<close>, \<^verbatim>\<open>updateTestIndicator\<close> leaves the
  indicator of an existing row with the class list \<^verbatim>\<open>test-indicator\<close> plus exactly one
  colour: red when hit and not tested, yellow when hit and tested, green when tested and not
  hit, grey when neither.  The four cases are all there are, the result does not depend on
  the colour shown before, and applying the update again with the same pair changes nothing.
\<close>

theorem test_indicator_colour:
  assumes "testRows d elementId = Some (Some before)"
  shows "testRows (updateTestIndicator elementId (Bool tested) (Bool hit) d) elementId =
           Some (Some [''test-indicator'',
             if hit \<and> \<not> tested then ''red''
             else if hit \<and> tested then ''yellow''
             else if tested \<and> \<not> hit then ''green''
             else ''grey'']) \<and>
         updateTestIndicator elementId (Bool tested) (Bool hit)
             (updateTestIndicator elementId (Bool tested) (Bool hit) d) =
           updateTestIndicator elementId (Bool tested) (Bool hit) d"
  using assms by (simp add: updateTestIndicator_def classList_add_def)

text \<open>The theorem of C5 at a switch that was hit during its test, on the example page.\<close>

theorem test_indicator_colour_witness:
  "testRows dom0 ''test-ls1'' = Some (Some [''test-indicator'', ''grey'']) \<and>
   testRows (updateTestIndicator ''test-ls1'' (Bool True) (Bool True) dom0) ''test-ls1'' =
     Some (Some [''test-indicator'', ''yellow''])"
  using test_indicator_colour[of dom0 "''test-ls1''" "[''test-indicator'', ''grey'']" True True]
  by (simp add: dom0_def)

section \<open>The reconnect timer\<close>

lemma inv_status: "reconnect_inv (updateConnectionStatus b c) = reconnect_inv c"
  by (simp add: reconnect_inv_def updateConnectionStatus_def)

lemma inv_schedule: "reconnect_inv c \<Longrightarrow> reconnect_inv (scheduleReconnect c)"
  by (auto simp add: reconnect_inv_def scheduleReconnect_def setTimeout_def timerSet_def
      split: option.splits)

lemma onConnect_clears:
  "reconnect_inv c \<Longrightarrow> timeouts (onConnect c) = [] \<and> reconnectTimer (onConnect c) = None"
  by (cases "reconnectTimer c")
     (auto simp add: reconnect_inv_def onConnect_def clearTimeout_def timerSet_def
       updateConnectionStatus_def Let_def)

lemma inv_onConnect: "reconnect_inv c \<Longrightarrow> reconnect_inv (onConnect c)"
  using onConnect_clears[of c]
  by (auto simp add: reconnect_inv_def onConnect_def clearTimeout_def updateConnectionStatus_def Let_def)

lemma inv_setup: "reconnect_inv c \<Longrightarrow> reconnect_inv (setupWebSocket t c)"
  using inv_schedule[of "updateConnectionStatus False c"]
  by (auto simp add: setupWebSocket_def inv_status) (auto simp add: reconnect_inv_def)

lemma inv_clear: "reconnect_inv c \<Longrightarrow> reconnect_inv (clearTimeout h c)"
  by (auto simp add: reconnect_inv_def clearTimeout_def split: if_splits)

lemma inv_step: "reconnect_inv c \<Longrightarrow> reconnect_inv (step c e)"
  by (cases e)
     (auto simp add: inv_onConnect onError_def onDisconnect_def inv_schedule inv_setup inv_clear
       inv_status)

lemma inv_foldl: "reconnect_inv c \<Longrightarrow> reconnect_inv (foldl step c evs)"
  by (induction evs arbitrary: c) (auto simp add: inv_step)

lemma inv_construct: "reconnect_inv (construct tok throws)"
  unfolding construct_def
  by (rule inv_setup) (simp add: reconnect_inv_def updateConnectionStatus_def)

lemma inv_run: "reconnect_inv (run (construct tok throws) evs)"
  unfolding run_def by (rule inv_foldl[OF inv_construct])

lemma classList_add_remove_idem:
  "classList_add c (classList_remove c' (classList_add c (classList_remove c' cs))) =
   classList_add c (classList_remove c' cs)"
  by (simp add: classList_add_def classList_remove_def)

lemma onConnect_idem: "onConnect (onConnect c) = onConnect c"
proof (cases "timerSet (reconnectTimer c)")
  case True
  then show ?thesis
    by (simp add: onConnect_def clearTimeout_def timerSet_def updateConnectionStatus_def Let_def
        classList_add_remove_idem)
next
  case False
  then show ?thesis
    by (simp add: onConnect_def clearTimeout_def updateConnectionStatus_def Let_def
        classList_add_remove_idem)
qed

lemma pending_at_most_one: "reconnect_inv c \<Longrightarrow> length (timeouts c) \<le> 1"
  by (auto simp add: reconnect_inv_def)

lemma second_failure_no_timer:
  "reconnect_inv c \<Longrightarrow> timeouts c \<noteq> [] \<Longrightarrow> timeouts (onDisconnect c) = timeouts c"
  by (auto simp add: reconnect_inv_def onDisconnect_def scheduleReconnect_def timerSet_def
      updateConnectionStatus_def)

lemma run_open_close:
  "run (construct (Some ''tok'') False) [Open, Close] =
     \<lparr>ws = Some 0, reconnectInterval = 5000, reconnectTimer = Some 1,
      monitor_token = Some ''tok'', location_href = [], timeouts = [(1, 5000)],
      nextHandle = 2, constructed = 1, statusDot = [''offline''],
      connectionText = ''Mock Data''\<rparr>"
  by code_simp

text \<open>
  Claim C4: in every state the client reaches from its construction, whatever the stored
  token and whatever events arrive, at most one reconnect timeout is pending; a close that
  arrives while one is pending leaves the pending timeouts as they are (no second timer);
  and \<^verbatim>\<open>onConnect\<close> leaves no timeout pending and the handle \<^verbatim>\<open>null\<close>, a second \<^verbatim>\<open>onConnect\<close>
  changing nothing more.
\<close>

theorem at_most_one_reconnect_timer:
  "length (timeouts (run (construct tok throws) evs)) \<le> 1 \<and>
   (timeouts (run (construct tok throws) evs) \<noteq> [] \<longrightarrow>
      timeouts (onDisconnect (run (construct tok throws) evs)) =
      timeouts (run (construct tok throws) evs)) \<and>
   timeouts (onConnect (run (construct tok throws) evs)) = [] \<and>
   reconnectTimer (onConnect (run (construct tok throws) evs)) = None \<and>
   onConnect (onConnect (run (construct tok throws) evs)) = onConnect (run (construct tok throws) evs)"
  using inv_run[of tok throws evs] onConnect_idem pending_at_most_one second_failure_no_timer
    onConnect_clears
  by blast

text \<open>
  The theorem of C4 after the first connection has opened and closed: one timeout is
  pending, and a second close adds none.
\<close>

theorem at_most_one_reconnect_timer_witness:
  "timeouts (run (construct (Some ''tok'') False) [Open, Close]) \<noteq> [] \<and>
   timeouts (onDisconnect (run (construct (Some ''tok'') False) [Open, Close])) = [(1, 5000)] \<and>
   timeouts (onConnect (run (construct (Some ''tok'') False) [Open, Close])) = []"
  using at_most_one_reconnect_timer[of "Some ''tok''" False "[Open, Close]"]
  by (simp add: run_open_close)

lemma stuck_step:
  assumes "timeouts c = []" "timerSet (reconnectTimer c)" "e \<noteq> Open"
  shows "timeouts (step c e) = [] \<and> reconnectTimer (step c e) = reconnectTimer c \<and>
         constructed (step c e) = constructed c"
  using assms
  by (cases e)
     (simp_all add: onError_def onDisconnect_def scheduleReconnect_def updateConnectionStatus_def)

lemma stuck_foldl:
  "timeouts c = [] \<Longrightarrow> timerSet (reconnectTimer c) \<Longrightarrow> Open \<notin> set evs \<Longrightarrow>
   timeouts (foldl step c evs) = [] \<and> constructed (foldl step c evs) = constructed c"
proof (induction evs arbitrary: c)
  case Nil
  then show ?case by simp
next
  case (Cons e evs)
  have e: "e \<noteq> Open" and rest: "Open \<notin> set evs"
    using Cons.prems(3) by auto
  have s: "timeouts (step c e) = []" "reconnectTimer (step c e) = reconnectTimer c"
      "constructed (step c e) = constructed c"
    using stuck_step[OF Cons.prems(1) Cons.prems(2) e] by simp_all
  have "timerSet (reconnectTimer (step c e))"
    using Cons.prems(2) s(2) by simp
  from Cons.IH[OF s(1) this rest] s(3) show ?case
    by simp
qed

lemma run_failed_retry:
  "run (construct (Some ''tok'') False) [Open, Close, Expire 1 False, Error, Close] =
     \<lparr>ws = Some 1, reconnectInterval = 5000, reconnectTimer = Some 1,
      monitor_token = Some ''tok'', location_href = [], timeouts = [],
      nextHandle = 2, constructed = 2, statusDot = [''offline''],
      connectionText = ''Mock Data''\<rparr>"
  by code_simp

text \<open>
  Claim C3 asks that every close schedules a reconnect, also the close of an attempt that a
  fired timer started.  The code at that input: the first close leaves one timeout of
  5000 ms pending; when it expires a second socket is constructed, but
  \<^verbatim>\<open>this.reconnectTimer\<close> still holds the expired handle; when the second attempt fails (error,
  then close), \<^verbatim>\<open>scheduleReconnect\<close> finds the handle set and schedules nothing, and no
  timeout is pending any more.  From then on, as long as no socket opens, no event
  schedules a timeout or constructs a socket.
\<close>

theorem no_reconnect_after_failed_retry:
  "timeouts (run (construct (Some ''tok'') False) [Open, Close]) = [(1, 5000)] \<and>
   constructed (run (construct (Some ''tok'') False) [Open, Close, Expire 1 False]) = 2 \<and>
   reconnectTimer (run (construct (Some ''tok'') False) [Open, Close, Expire 1 False]) = Some 1 \<and>
   timeouts (run (construct (Some ''tok'') False) [Open, Close, Expire 1 False, Error, Close]) = [] \<and>
   (Open \<notin> set evs \<longrightarrow>
      timeouts (run (construct (Some ''tok'') False)
        ([Open, Close, Expire 1 False, Error, Close] @ evs)) = [] \<and>
      constructed (run (construct (Some ''tok'') False)
        ([Open, Close, Expire 1 False, Error, Close] @ evs)) = 2)"
proof -
  let ?c = "run (construct (Some ''tok'') False) [Open, Close, Expire 1 False, Error, Close]"
  have split: "run (construct (Some ''tok'') False)
      ([Open, Close, Expire 1 False, Error, Close] @ evs) = foldl step ?c evs"
    by (simp only: run_def foldl_append)
  have c: "timeouts ?c = []" "timerSet (reconnectTimer ?c)" "constructed ?c = 2"
    by (simp_all add: run_failed_retry timerSet_def del: One_nat_def)
  have tail: "Open \<notin> set evs \<longrightarrow>
      timeouts (foldl step ?c evs) = [] \<and> constructed (foldl step ?c evs) = 2"
    using stuck_foldl[OF c(1) c(2), of evs] c(3) by simp
  have first:
    "timeouts (run (construct (Some ''tok'') False) [Open, Close]) = [(1, 5000)] \<and>
     constructed (run (construct (Some ''tok'') False) [Open, Close, Expire 1 False]) = 2 \<and>
     reconnectTimer (run (construct (Some ''tok'') False) [Open, Close, Expire 1 False]) = Some 1"
    by code_simp
  show ?thesis
    unfolding split using first c(1) tail by blast
qed

text \<open>
  The theorem of C3 with a further close, an expiry event, an error and a close after the
  failed retry: still no timeout pending and no third socket.
\<close>

theorem no_reconnect_after_failed_retry_witness:
  "timeouts (run (construct (Some ''tok'') False)
     [Open, Close, Expire 1 False, Error, Close, Close, Expire 1 False, Error, Close]) = [] \<and>
   constructed (run (construct (Some ''tok'') False)
     [Open, Close, Expire 1 False, Error, Close, Close, Expire 1 False, Error, Close]) = 2"
  using no_reconnect_after_failed_retry[of "[Close, Expire 1 False, Error, Close]"]
  by (simp del: One_nat_def)

section \<open>The readings store\<close>

lemma slice_last_drop: "slice_last n (drop (length ys - n) ys @ xs) = slice_last n (ys @ xs)"
proof (cases "length ys \<le> n")
  case True
  then show ?thesis by simp
next
  case False
  have "drop (length ys - n) ys @ xs = drop (length ys - n) (ys @ xs)"
    by simp
  then have "slice_last n (drop (length ys - n) ys @ xs) =
      drop (length (drop (length ys - n) (ys @ xs)) - n) (drop (length ys - n) (ys @ xs))"
    by (simp only: slice_last_def)
  also have "\<dots> = drop (length (drop (length ys - n) (ys @ xs)) - n + (length ys - n)) (ys @ xs)"
    by (simp only: drop_drop)
  also have "length (drop (length ys - n) (ys @ xs)) - n + (length ys - n) = length (ys @ xs) - n"
    using False by simp
  finally show ?thesis
    by (simp only: slice_last_def)
qed

lemma saveReading_slice: "length rs \<le> 1000 \<Longrightarrow> saveReading x rs = slice_last 1000 (rs @ [x])"
  by (simp add: saveReading_def slice_last_def Let_def)

lemma length_slice_last: "length (slice_last n xs) \<le> n"
  by (simp add: slice_last_def)

lemma foldl_saveReading:
  "length rs \<le> 1000 \<Longrightarrow>
   foldl (\<lambda>readings data. saveReading data readings) rs xs = slice_last 1000 (rs @ xs)"
proof (induction xs arbitrary: rs)
  case Nil
  then show ?case by (simp add: slice_last_def)
next
  case (Cons x xs)
  have eq: "saveReading x rs = slice_last 1000 (rs @ [x])"
    by (rule saveReading_slice[OF Cons.prems])
  have len: "length (saveReading x rs) \<le> 1000"
    by (simp only: eq length_slice_last)
  have "foldl (\<lambda>readings data. saveReading data readings) (saveReading x rs) xs =
      slice_last 1000 (saveReading x rs @ xs)"
    by (rule Cons.IH[OF len])
  also have "\<dots> = slice_last 1000 (drop (length (rs @ [x]) - 1000) (rs @ [x]) @ xs)"
    by (simp only: eq slice_last_def)
  also have "\<dots> = slice_last 1000 ((rs @ [x]) @ xs)"
    by (rule slice_last_drop)
  finally show ?case by simp
qed

lemma saveAll_slice: "saveAll xs = slice_last 1000 xs"
  using foldl_saveReading[of "[]" xs] by (simp add: saveAll_def)

text \<open>
  Claim C8: after more than 1000 appends to the initially empty store, the store holds 1000
  snapshots, namely the last 1000 appended, in the order of appending; and after each of
  the appends on the way it held at most 1000.
\<close>

theorem store_keeps_last_1000:
  assumes "1000 < length xs"
  shows "length (saveAll xs) = 1000 \<and>
         saveAll xs = drop (length xs - 1000) xs \<and>
         (\<forall>k. length (saveAll (take k xs)) \<le> 1000)"
  using assms by (simp add: saveAll_slice length_slice_last) (simp add: slice_last_def)

text \<open>The theorem of C8 at 1001 appends: the first snapshot, 7, is the one evicted.\<close>

theorem store_keeps_last_1000_witness:
  "1000 < length (7 # replicate 1000 (0::nat)) \<and>
   saveAll (7 # replicate 1000 (0::nat)) = replicate 1000 0"
  using store_keeps_last_1000[of "7 # replicate 1000 (0::nat)"] by simp

section \<open>The wire message\<close>

text \<open>
  Claim C9, as the code has it: the message a tick sends on an open socket is the tick
  object, and its properties are exactly \<^verbatim>\<open>load\<close>, \<^verbatim>\<open>swl\<close>, \<^verbatim>\<open>fork_position\<close>, \<^verbatim>\<open>battery\<close>,
  \<^verbatim>\<open>safety_level\<close>, \<^verbatim>\<open>utilization_minutes\<close>, \<^verbatim>\<open>utilization_active\<close>, \<^verbatim>\<open>counters\<close> and
  \<^verbatim>\<open>timestamp\<close>, in this order.
\<close>

theorem tick_message_fields:
  assumes "closed (sockets s conn) = None"
  shows "sent (sockets (tick r now conn s) conn) = sent (sockets s conn) @ [tickData r now] \<and>
         ownKeys (tickData r now) =
           [''load'', ''swl'', ''fork_position'', ''battery'', ''safety_level'',
            ''utilization_minutes'', ''utilization_active'', ''counters'', ''timestamp'']"
  using assms by (simp add: tick_def ws_send_def Let_def ownKeys_def tickData_def)

text \<open>The theorem of C9 at the first tick on connection 0 of a fresh server.\<close>

theorem tick_message_fields_witness:
  "closed (sockets server0 0) = None \<and>
   map ownKeys (sent (sockets (tick randoms0 0 0 server0) 0)) =
     [[''load'', ''swl'', ''fork_position'', ''battery'', ''safety_level'',
       ''utilization_minutes'', ''utilization_active'', ''counters'', ''timestamp'']]"
  using tick_message_fields[of server0 0 randoms0 0]
  by (simp add: server0_def newSocket_def)

text \<open>
  Against C9 as stated: the tick object has no property \<^verbatim>\<open>test_mode\<close> (nor \<^verbatim>\<open>hoist_active\<close>,
  \<^verbatim>\<open>status_word\<close>, \<^verbatim>\<open>overload_active\<close> or \<^verbatim>\<open>bypass_active\<close>).
\<close>

theorem tick_message_lacks_test_mode:
  "''test_mode'' \<notin> set (ownKeys (tickData randoms0 0)) \<and>
   ''hoist_active'' \<notin> set (ownKeys (tickData randoms0 0)) \<and>
   ''status_word'' \<notin> set (ownKeys (tickData randoms0 0)) \<and>
   ''overload_active'' \<notin> set (ownKeys (tickData randoms0 0)) \<and>
   ''bypass_active'' \<notin> set (ownKeys (tickData randoms0 0))"
  by (simp add: ownKeys_def tickData_def)

section \<open>Rejected connections\<close>

lemma no_token_close:
  assumes "CHR ''?'' \<notin> set (url req) \<or> getToken req = Returns None \<or> getToken req = Returns (Some [])"
  shows "server_step getToken verify s (Connect conn req) =
           s\<lparr>sockets := (sockets s)(conn := \<lparr>closed = Some (1008, ''Unauthorized''), sent = []\<rparr>)\<rparr>"
  using assms
  by (auto simp add: on_connection_def accept_def ws_close_def newSocket_def Let_def)

lemma bad_token_close:
  assumes "CHR ''?'' \<in> set (url req)" "getToken req = Returns (Some t)" "t \<noteq> []" "\<not> verify t"
  shows "server_step getToken verify s (Connect conn req) =
           s\<lparr>sockets := (sockets s)(conn := \<lparr>closed = Some (1008, ''Invalid token''), sent = []\<rparr>)\<rparr>"
  using assms
  by (auto simp add: on_connection_def accept_def ws_close_def newSocket_def Let_def)

lemma same_store_step:
  assumes "same_store s t"
  shows "same_store (server_step g v s e) (server_step g v t e)"
proof (cases e)
  case (Connect conn req)
  then show ?thesis
    using assms
    by (auto simp add: same_store_def on_connection_def accept_def Let_def split: outcome.splits)
next
  case (Tick h r now)
  then show ?thesis
    using assms by (auto simp add: same_store_def tick_def Let_def split: option.splits)
next
  case (Disconnect conn code reason)
  then show ?thesis
    using assms by (auto simp add: same_store_def on_close_def)
qed

lemma same_store_run:
  "same_store s t \<Longrightarrow> same_store (server_run g v s evs) (server_run g v t evs)"
  unfolding server_run_def
  by (induction evs arbitrary: s t) (auto simp add: same_store_step)

lemma url_error_close:
  assumes "CHR ''?'' \<in> set (url req)" "getToken req = Throws"
  shows "server_step getToken verify s (Connect conn req) =
           s\<lparr>sockets := (sockets s)(conn := \<lparr>closed = Some (1011, ''Server error''), sent = []\<rparr>)\<rparr>"
  using assms
  by (simp add: on_connection_def accept_def ws_close_def newSocket_def Let_def)

text \<open>
  Claim C6, as the code has it: a connection request from which the handler gets no token
  (the URL has no query, the \<^verbatim>\<open>token\<close> parameter is absent or empty, or the \<^verbatim>\<open>URL\<close>
  constructor throws) changes the server in one way only: its socket is closed, nothing
  having been sent on it, with code 1008 and reason \<^verbatim>\<open>Unauthorized\<close>, or, when the
  constructor threw, with code 1011 and reason \<^verbatim>\<open>Server error\<close>.  No interval timer is
  started and nothing is appended to the readings, and whatever happens afterwards, the
  readings and the timers are what they would be had the request never arrived.
\<close>

theorem no_token_closed_without_session:
  assumes "CHR ''?'' \<notin> set (url req) \<or> getToken req = Throws \<or>
           getToken req = Returns None \<or> getToken req = Returns (Some [])"
  shows "server_step getToken verify s (Connect conn req) =
           s\<lparr>sockets := (sockets s)(conn :=
               \<lparr>closed = Some (if CHR ''?'' \<in> set (url req) \<and> getToken req = Throws
                                then (1011, ''Server error'') else (1008, ''Unauthorized'')),
                sent = []\<rparr>)\<rparr> \<and>
         readings (server_run getToken verify (server_step getToken verify s (Connect conn req)) evs) =
           readings (server_run getToken verify s evs) \<and>
         intervals (server_run getToken verify (server_step getToken verify s (Connect conn req)) evs) =
           intervals (server_run getToken verify s evs)"
proof -
  have st: "server_step getToken verify s (Connect conn req) =
      s\<lparr>sockets := (sockets s)(conn :=
          \<lparr>closed = Some (if CHR ''?'' \<in> set (url req) \<and> getToken req = Throws
                           then (1011, ''Server error'') else (1008, ''Unauthorized'')),
           sent = []\<rparr>)\<rparr>"
  proof (cases "CHR ''?'' \<in> set (url req) \<and> getToken req = Throws")
    case True
    then show ?thesis
      using url_error_close[of req getToken verify s conn] by simp
  next
    case False
    then have "CHR ''?'' \<notin> set (url req) \<or> getToken req = Returns None \<or>
        getToken req = Returns (Some [])"
      using assms by auto
    then show ?thesis
      using False no_token_close[of req getToken verify s conn] by auto
  qed
  then have "same_store (server_step getToken verify s (Connect conn req)) s"
    by (simp add: same_store_def)
  then have "same_store
      (server_run getToken verify (server_step getToken verify s (Connect conn req)) evs)
      (server_run getToken verify s evs)"
    by (rule same_store_run)
  with st show ?thesis
    by (simp add: same_store_def)
qed

text \<open>
  The theorem of C6 at the request \<^verbatim>\<open>/ws\<close> and at the request \<^verbatim>\<open>/ws?foo=1\<close> with the host
  \<^verbatim>\<open>a b\<close> on a fresh server, each followed by a tick event for the first timer handle: the
  store stays empty.
\<close>

theorem no_token_closed_without_session_witness:
  "closed (sockets (server_step getToken_badhost verify_none server0 (Connect 0 request_plain)) 0) =
     Some (1008, ''Unauthorized'') \<and>
   closed (sockets (server_step getToken_badhost verify_none server0 (Connect 0 request_badhost)) 0) =
     Some (1011, ''Server error'') \<and>
   intervals (server_step getToken_badhost verify_none server0 (Connect 0 request_plain)) = [] \<and>
   intervals (server_step getToken_badhost verify_none server0 (Connect 0 request_badhost)) = [] \<and>
   readings (server_run getToken_badhost verify_none
      (server_step getToken_badhost verify_none server0 (Connect 0 request_plain))
      [Tick 1 randoms0 0]) = [] \<and>
   readings (server_run getToken_badhost verify_none
      (server_step getToken_badhost verify_none server0 (Connect 0 request_badhost))
      [Tick 1 randoms0 0]) = []"
  using no_token_closed_without_session[of request_plain getToken_badhost verify_none server0 0
          "[Tick 1 randoms0 0]"]
        no_token_closed_without_session[of request_plain getToken_badhost verify_none server0 0 "[]"]
        no_token_closed_without_session[of request_badhost getToken_badhost verify_none server0 0
          "[Tick 1 randoms0 0]"]
        no_token_closed_without_session[of request_badhost getToken_badhost verify_none server0 0 "[]"]
  by (simp add: request_plain_def request_badhost_def getToken_badhost_def server_run_def
      server0_def)

text \<open>
  Against C6 as stated: the request \<^verbatim>\<open>/ws?foo=1\<close> with the host \<^verbatim>\<open>a b\<close> carries no token, and
  it is closed with code 1011, not 1008.
\<close>

theorem no_token_bad_host_closed_1011:
  "closed (sockets (server_step getToken_badhost verify_none server0 (Connect 0 request_badhost)) 0) =
     Some (1011, ''Server error'') \<and>
   closed (sockets (server_step getToken_badhost verify_none server0 (Connect 0 request_badhost)) 0) \<noteq>
     Some (1008, ''Unauthorized'')"
  by (simp add: on_connection_def accept_def ws_close_def newSocket_def Let_def
      getToken_badhost_def request_badhost_def)

text \<open>
  Claim C7, as the code has it: a request without a token and a request whose token fails
  verification are both closed with code 1008, but with different reasons, \<^verbatim>\<open>Unauthorized\<close>
  for the first and \<^verbatim>\<open>Invalid token\<close> for the second, so the close the peer receives tells
  the two causes apart.
\<close>

theorem rejections_differ_in_reason:
  assumes "CHR ''?'' \<notin> set (url req1) \<or> getToken req1 = Returns None \<or> getToken req1 = Returns (Some [])"
    and "CHR ''?'' \<in> set (url req2)" "getToken req2 = Returns (Some t)" "t \<noteq> []" "\<not> verify t"
  shows "closed (sockets (server_step getToken verify s (Connect conn req1)) conn) =
           Some (1008, ''Unauthorized'') \<and>
         closed (sockets (server_step getToken verify s (Connect conn req2)) conn) =
           Some (1008, ''Invalid token'')"
  using no_token_close[of req1 getToken verify s conn]
        bad_token_close[of req2 getToken t verify s conn] assms
  by simp

text \<open>The theorem of C7 at the requests \<^verbatim>\<open>/ws\<close> and \<^verbatim>\<open>/ws?token=bad\<close>.\<close>

theorem rejections_differ_in_reason_witness:
  "closed (sockets (server_step getToken_example verify_none server0 (Connect 0 request_plain)) 0) =
     Some (1008, ''Unauthorized'') \<and>
   closed (sockets (server_step getToken_example verify_none server0 (Connect 0 request_bad)) 0) =
     Some (1008, ''Invalid token'')"
  using rejections_differ_in_reason[of request_plain getToken_example request_bad "''bad''"
      verify_none server0 0]
  by (simp add: request_plain_def request_bad_def getToken_example_def verify_none_def)

text \<open>
  Against C7 as stated: the close given to \<^verbatim>\<open>/ws\<close> and the close given to
  \<^verbatim>\<open>/ws?token=bad\<close> are not the same.
\<close>

theorem missing_and_invalid_token_closes_differ:
  "closed (sockets (server_step getToken_example verify_none server0 (Connect 0 request_plain)) 0) \<noteq>
   closed (sockets (server_step getToken_example verify_none server0 (Connect 0 request_bad)) 0)"
  by (simp add: on_connection_def accept_def ws_close_def newSocket_def Let_def
      getToken_example_def verify_none_def request_plain_def request_bad_def)

end
